theory Spec2Isabelle
  imports Complex_Main
begin

section \<open>The notebook 003\_PyTorch: linear regression by gradient descent\<close>

text \<open>
  The notebook defines a linear model \<^verbatim>\<open>MyLinearModel\<close> with two parameters of
  shape (1,), trains it in a plain \<^verbatim>\<open>for\<close> loop with \<^verbatim>\<open>loss.backward()\<close>, and wraps
  the data in a \<^verbatim>\<open>WineData\<close> dataset. The tensor library itself is not part of the
  repository; what the cells use of it is modelled here:
  \<^item> a one-dimensional tensor is a list of numbers, and a number is a \<open>real\<close>: the
    rounding, overflow and non-finite entries of IEEE arithmetic are outside the
    model. The one non-finite value the cells can produce from finite data, the mean
    of an empty tensor, is kept as \<open>NaN\<close>;
  \<^item> elementwise operations broadcast as torch does for 1-D operands: equal sizes, or
    one operand of size 1; any other pair of sizes raises;
  \<^item> the forward pass records the graph of operations with the values it computed, and
    \<^verbatim>\<open>backward()\<close> walks that graph in reverse, adding into the \<^verbatim>\<open>.grad\<close> of the leaves.
\<close>

subsection \<open>Errors and results\<close>

datatype error =
    ShapeMismatch   \<comment> \<open>torch RuntimeError: sizes of two tensors do not match\<close>
  | TypeError       \<comment> \<open>Python TypeError: arithmetic on \<^verbatim>\<open>None\<close>\<close>
  | AssertionError  \<comment> \<open>a failed \<^verbatim>\<open>assert\<close>\<close>
  | IndexError      \<comment> \<open>index out of bounds\<close>

definition bind_err :: "error + 'a \<Rightarrow> ('a \<Rightarrow> error + 'b) \<Rightarrow> error + 'b" where
  "bind_err r f = (case r of Inl e \<Rightarrow> Inl e | Inr v \<Rightarrow> f v)"

subsection \<open>Tensors, broadcasting and the recorded graph\<close>

type_synonym tensor = "real list"

datatype scalar = Num real | NaN

definition broadcast_tensors :: "tensor \<Rightarrow> tensor \<Rightarrow> error + tensor \<times> tensor" where
  "broadcast_tensors u v =
     (if length u = length v then Inr (u, v)
      else if length u = 1 then Inr (replicate (length v) (hd u), v)
      else if length v = 1 then Inr (u, replicate (length u) (hd v))
      else Inl ShapeMismatch)"

datatype pname = ParamA | ParamB

datatype binop = AddBackward | SubBackward | MulBackward

text \<open>
  A tensor with its history: a tensor that needs no gradient (\<open>Const\<close>), a parameter
  of shape (1,) (\<open>Leaf\<close>), or the result of a binary operation together with its
  operands and the value computed.
\<close>

datatype graph =
    Const tensor
  | Leaf pname real
  | Node binop graph graph tensor

fun val :: "graph \<Rightarrow> tensor" where
  "val (Const t) = t"
| "val (Leaf p c) = [c]"
| "val (Node f l r t) = t"

fun op_fn :: "binop \<Rightarrow> real \<Rightarrow> real \<Rightarrow> real" where
  "op_fn AddBackward u v = u + v"
| "op_fn SubBackward u v = u - v"
| "op_fn MulBackward u v = u * v"

definition binary :: "binop \<Rightarrow> graph \<Rightarrow> graph \<Rightarrow> error + graph" where
  "binary f l r =
     (case broadcast_tensors (val l) (val r) of
        Inl e \<Rightarrow> Inl e
      | Inr (u, v) \<Rightarrow> Inr (Node f l r (map2 (op_fn f) u v)))"

text \<open>\<^verbatim>\<open>.mean()\<close>: a scalar with the graph it was reduced from; NaN on an empty tensor.\<close>

record loss_tensor =
  item :: scalar
  grad_fn :: graph

definition mean_value :: "tensor \<Rightarrow> scalar" where
  "mean_value t = (if t = [] then NaN else Num (sum_list t / real (length t)))"

definition mean :: "graph \<Rightarrow> loss_tensor" where
  "mean g = \<lparr>item = mean_value (val g), grad_fn = g\<rparr>"

subsection \<open>Reverse-mode differentiation\<close>

text \<open>
  The gradient that reaches an operand is reduced to the operand's shape: an operand
  that was broadcast from size 1 receives the sum.
\<close>

definition sum_to_size :: "nat \<Rightarrow> tensor \<Rightarrow> tensor" where
  "sum_to_size n g = (if length g = n then g else [sum_list g])"

definition expand :: "nat \<Rightarrow> tensor \<Rightarrow> tensor" where
  "expand n t = (if length t = n then t else replicate n (hd t))"

fun operand_grads :: "binop \<Rightarrow> tensor \<Rightarrow> tensor \<Rightarrow> tensor \<Rightarrow> tensor \<times> tensor" where
  "operand_grads AddBackward g u v = (g, g)"
| "operand_grads SubBackward g u v = (g, map uminus g)"
| "operand_grads MulBackward g u v =
     (map2 (*) g (expand (length g) v), map2 (*) g (expand (length g) u))"

text \<open>
  \<open>backprop n g\<close> sends the gradient \<open>g\<close> of the output with respect to node \<open>n\<close>
  down to the leaves and returns what is to be added to \<^verbatim>\<open>a.grad\<close> and \<^verbatim>\<open>b.grad\<close>.
  A node that is an operand twice is visited once for each use, and the contributions
  add up.
\<close>

fun backprop :: "graph \<Rightarrow> tensor \<Rightarrow> real \<times> real" where
  "backprop (Const t) g = (0, 0)"
| "backprop (Leaf ParamA c) g = (sum_list g, 0)"
| "backprop (Leaf ParamB c) g = (0, sum_list g)"
| "backprop (Node f l r t) g =
     (let (gl, gr) = operand_grads f g (val l) (val r);
          (al, bl) = backprop l (sum_to_size (length (val l)) gl);
          (ar, br) = backprop r (sum_to_size (length (val r)) gr)
      in (al + ar, bl + br))"

subsection \<open>Parameters and the model\<close>

record parameter =
  data :: real
  grad :: "real option"

record MyLinearModel =
  self_a :: parameter
  self_b :: parameter

text \<open>\<^verbatim>\<open>nn.Parameter(t, requires_grad=True)\<close>: a fresh parameter has no gradient yet.\<close>

definition Parameter :: "real \<Rightarrow> parameter" where
  "Parameter t = \<lparr>data = t, grad = None\<rparr>"

text \<open>
  \<^verbatim>\<open>MyLinearModel.__init__\<close>. The global generator is threaded through explicitly:
  \<open>manual_seed s\<close> is the generator state that \<^verbatim>\<open>torch.random.manual_seed(s)\<close>
  installs, and \<open>rand g\<close> is the number \<^verbatim>\<open>torch.rand(1)\<close> draws in state \<open>g\<close> with the
  state it leaves. Both belong to the library and are parameters of the model.
\<close>

definition MyLinearModel_init ::
  "(int \<Rightarrow> 'g) \<Rightarrow> ('g \<Rightarrow> real \<times> 'g) \<Rightarrow> 'g \<Rightarrow> MyLinearModel \<times> 'g" where
  "MyLinearModel_init manual_seed rand g =
     (let g0 = manual_seed 7;
          (ra, g1) = rand g0;
          (rb, g2) = rand g1
      in (\<lparr>self_a = Parameter ra, self_b = Parameter rb\<rparr>, g2))"

text \<open>\<^verbatim>\<open>MyLinearModel.forward\<close>: \<^verbatim>\<open>x*self.a + self.b\<close>.\<close>

definition forward :: "MyLinearModel \<Rightarrow> graph \<Rightarrow> error + graph" where
  "forward self x =
     bind_err (binary MulBackward x (Leaf ParamA (data (self_a self))))
       (\<lambda>xa. binary AddBackward xa (Leaf ParamB (data (self_b self))))"

subsection \<open>The gradient-descent cell\<close>

text \<open>\<^verbatim>\<open>((thy-yhat)*(thy-yhat)).mean()\<close>; the difference is computed twice.\<close>

definition mse :: "graph \<Rightarrow> graph \<Rightarrow> error + loss_tensor" where
  "mse thy yhat =
     bind_err (binary SubBackward thy yhat) (\<lambda>d1.
     bind_err (binary SubBackward thy yhat) (\<lambda>d2.
     bind_err (binary MulBackward d1 d2) (\<lambda>sq.
       Inr (mean sq))))"

text \<open>
  \<^verbatim>\<open>loss.backward()\<close>: the gradient of a mean with respect to each of its \<open>k\<close> inputs
  is \<open>1/k\<close>; what reaches a parameter is stored when its \<^verbatim>\<open>.grad\<close> is \<^verbatim>\<open>None\<close> and
  added to it otherwise.
\<close>

definition accumulate :: "real \<Rightarrow> parameter \<Rightarrow> parameter" where
  "accumulate g p = p\<lparr>grad := Some (case grad p of None \<Rightarrow> g | Some g0 \<Rightarrow> g0 + g)\<rparr>"

definition loss_grads :: "loss_tensor \<Rightarrow> real \<times> real" where
  "loss_grads l =
     (let k = length (val (grad_fn l))
      in backprop (grad_fn l) (replicate k (1 / real k)))"

definition backward :: "loss_tensor \<Rightarrow> MyLinearModel \<Rightarrow> MyLinearModel" where
  "backward l m =
     (let (ga, gb) = loss_grads l
      in m\<lparr>self_a := accumulate ga (self_a m), self_b := accumulate gb (self_b m)\<rparr>)"

text \<open>The body of \<^verbatim>\<open>for p in lin.parameters()\<close>, and the loop over \<^verbatim>\<open>a\<close> then \<^verbatim>\<open>b\<close>.\<close>

definition update_parameter :: "real \<Rightarrow> parameter \<Rightarrow> error + parameter" where
  "update_parameter lr p =
     (case grad p of
        None \<Rightarrow> Inl TypeError
      | Some g \<Rightarrow> Inr (p\<lparr>data := data p - lr * g, grad := Some 0\<rparr>))"

definition update_parameters :: "real \<Rightarrow> MyLinearModel \<Rightarrow> error + MyLinearModel" where
  "update_parameters lr m =
     bind_err (update_parameter lr (self_a m)) (\<lambda>a'.
     bind_err (update_parameter lr (self_b m)) (\<lambda>b'.
       Inr (m\<lparr>self_a := a', self_b := b'\<rparr>)))"

text \<open>
  The variables of the cell: the model \<^verbatim>\<open>lin\<close>, \<^verbatim>\<open>yhat\<close> (bound by the cell before)
  and \<^verbatim>\<open>loss\<close> (unbound until the first iteration). The plotting every 1000th epoch
  only reads them. An exception ends the loop: the result is then the error alone.
\<close>

record cell_state =
  lin :: MyLinearModel
  yhat :: tensor
  loss :: "scalar option"

definition epoch :: "real \<Rightarrow> tensor \<Rightarrow> tensor \<Rightarrow> cell_state \<Rightarrow> error + cell_state" where
  "epoch lr thx thy s =
     bind_err (forward (lin s) (Const thx)) (\<lambda>yh.
     bind_err (mse (Const thy) yh) (\<lambda>l.
     bind_err (update_parameters lr (backward l (lin s))) (\<lambda>m.
       Inr (s\<lparr>lin := m, yhat := val yh, loss := Some (item l)\<rparr>))))"

fun for_epochs :: "nat \<Rightarrow> real \<Rightarrow> tensor \<Rightarrow> tensor \<Rightarrow> cell_state \<Rightarrow> error + cell_state" where
  "for_epochs 0 lr thx thy s = Inr s"
| "for_epochs (Suc k) lr thx thy s =
     bind_err (epoch lr thx thy s) (for_epochs k lr thx thy)"

text \<open>\<^verbatim>\<open>for ep in range(num_epochs)\<close>: a negative count gives an empty range.\<close>

definition gradient_descent ::
  "real \<Rightarrow> int \<Rightarrow> tensor \<Rightarrow> tensor \<Rightarrow> cell_state \<Rightarrow> error + cell_state" where
  "gradient_descent lr num_epochs thx thy s = for_epochs (nat num_epochs) lr thx thy s"

subsection \<open>The dataset\<close>

text \<open>
  \<^verbatim>\<open>WineData\<close> over one-dimensional arrays. \<open>single\<close> is the cast of one element by
  \<^verbatim>\<open>astype(np.single)\<close>. An integer index is read as numpy reads it: a negative index
  counts from the end, and an index outside the array raises.
\<close>

record 'f WineData =
  self_x :: "'f list"
  self_y :: "'f list"

definition WineData_init :: "('e \<Rightarrow> 'f) \<Rightarrow> 'e list \<Rightarrow> 'e list \<Rightarrow> error + 'f WineData" where
  "WineData_init single x y =
     (let sx = map single x; sy = map single y
      in if length sx = length sy then Inr \<lparr>self_x = sx, self_y = sy\<rparr>
         else Inl AssertionError)"

definition array_item :: "'f list \<Rightarrow> int \<Rightarrow> error + 'f" where
  "array_item xs idx =
     (let n = int (length xs); j = (if idx < 0 then n + idx else idx)
      in if 0 \<le> j \<and> j < n then Inr (xs ! nat j) else Inl IndexError)"

definition WineData_getitem :: "'f WineData \<Rightarrow> int \<Rightarrow> error + 'f \<times> 'f" where
  "WineData_getitem self idx =
     bind_err (array_item (self_x self) idx) (\<lambda>xv.
     bind_err (array_item (self_y self) idx) (\<lambda>yv.
       Inr (xv, yv)))"

definition WineData_len :: "'f WineData \<Rightarrow> nat" where
  "WineData_len self = length (self_y self)"

subsection \<open>The trainer as the specification words it\<close>

text \<open>
  The specification describes the cell as five pure functions on sequences and
  parameter pairs. They are written down here from its words, to be compared with
  what the cell computes: the affine prediction, the mean squared error, the closed
  form of the gradient, one update, and the loop that returns the final parameters
  with the loss of every epoch.
\<close>

definition spec_forward :: "real \<Rightarrow> real \<Rightarrow> tensor \<Rightarrow> tensor" where
  "spec_forward a b x = map (\<lambda>xi. a * xi + b) x"

definition spec_loss :: "tensor \<Rightarrow> tensor \<Rightarrow> real" where
  "spec_loss y y_hat = (\<Sum>i<length y. (y ! i - y_hat ! i)\<^sup>2) / real (length y)"

definition spec_gradient :: "tensor \<Rightarrow> tensor \<Rightarrow> real \<Rightarrow> real \<Rightarrow> real \<times> real" where
  "spec_gradient x y a b =
     (- 2 / real (length x) * (\<Sum>i<length x. (y ! i - (a * x ! i + b)) * x ! i),
      - 2 / real (length x) * (\<Sum>i<length x. y ! i - (a * x ! i + b)))"

definition spec_step :: "real \<Rightarrow> real \<Rightarrow> real \<Rightarrow> real \<Rightarrow> real \<Rightarrow> real \<times> real" where
  "spec_step a b grad_a grad_b learning_rate =
     (a - learning_rate * grad_a, b - learning_rate * grad_b)"

fun spec_train :: "tensor \<Rightarrow> tensor \<Rightarrow> real \<times> real \<Rightarrow> real \<Rightarrow> nat \<Rightarrow> (real \<times> real) \<times> real list" where
  "spec_train x y p learning_rate 0 = (p, [])"
| "spec_train x y p learning_rate (Suc k) =
     (let l = spec_loss y (spec_forward (fst p) (snd p) x);
          (grad_a, grad_b) = spec_gradient x y (fst p) (snd p);
          (p', ls) = spec_train x y (spec_step (fst p) (snd p) grad_a grad_b learning_rate) learning_rate k
      in (p', l # ls))"

text \<open>
  The specification's \<open>initialize(seed)\<close>: the generator is seeded with the seed given
  and the two parameter values are drawn, \<open>a\<close> first.
\<close>

definition spec_initialize :: "(int \<Rightarrow> 'g) \<Rightarrow> ('g \<Rightarrow> real \<times> 'g) \<Rightarrow> int \<Rightarrow> real \<times> real" where
  "spec_initialize manual_seed rand seed =
     (let g0 = manual_seed seed;
          (a, g1) = rand g0;
          (b, g2) = rand g1
      in (a, b))"

subsection \<open>Auxiliary notions\<close>

text \<open>
  What a parameter's \<^verbatim>\<open>.grad\<close> contributes to the next accumulation (\<^verbatim>\<open>None\<close>
  contributes nothing), the loss values the cell's variables hold, the parameter
  pair, and the graph that the loop body builds when \<^verbatim>\<open>thx\<close> and \<^verbatim>\<open>thy\<close> have
  the same size.
\<close>

definition pending_grad :: "parameter \<Rightarrow> real" where
  "pending_grad p = (case grad p of None \<Rightarrow> 0 | Some g \<Rightarrow> g)"

definition losses_kept :: "cell_state \<Rightarrow> scalar list" where
  "losses_kept s = (case loss s of None \<Rightarrow> [] | Some l \<Rightarrow> [l])"

definition params :: "cell_state \<Rightarrow> real \<times> real" where
  "params s = (data (self_a (lin s)), data (self_b (lin s)))"

definition prediction :: "MyLinearModel \<Rightarrow> tensor \<Rightarrow> tensor" where
  "prediction m x = map (\<lambda>xi. xi * data (self_a m) + data (self_b m)) x"

definition forward_graph :: "MyLinearModel \<Rightarrow> tensor \<Rightarrow> graph" where
  "forward_graph m x =
     Node AddBackward
       (Node MulBackward (Const x) (Leaf ParamA (data (self_a m)))
          (map (\<lambda>xi. xi * data (self_a m)) x))
       (Leaf ParamB (data (self_b m)))
       (prediction m x)"

definition residual_graph :: "tensor \<Rightarrow> graph \<Rightarrow> graph" where
  "residual_graph y yh = Node SubBackward (Const y) yh (map2 (-) y (val yh))"

definition square_graph :: "tensor \<Rightarrow> graph \<Rightarrow> graph" where
  "square_graph y yh =
     Node MulBackward (residual_graph y yh) (residual_graph y yh)
       (map2 (*) (map2 (-) y (val yh)) (map2 (-) y (val yh)))"

section \<open>Properties\<close>

subsection \<open>Building the graph\<close>

lemma bind_err_Inr [simp]: "bind_err (Inr v) f = f v"
  by (simp add: bind_err_def)

lemma bind_err_Inl [simp]: "bind_err (Inl e) f = Inl e"
  by (simp add: bind_err_def)

lemma broadcast_same: "length u = length v \<Longrightarrow> broadcast_tensors u v = Inr (u, v)"
  by (simp add: broadcast_tensors_def)

lemma broadcast_one: "broadcast_tensors u [c] = Inr (u, replicate (length u) c)"
  by (cases u rule: list.exhaust; cases "tl u") (auto simp: broadcast_tensors_def)

lemma map2_replicate: "map2 f u (replicate (length u) c) = map (\<lambda>e. f e c) u"
  by (induction u) simp_all

lemma binary_leaf:
  "binary f l (Leaf p c) = Inr (Node f l (Leaf p c) (map (\<lambda>e. op_fn f e c) (val l)))"
  by (simp add: binary_def broadcast_one map2_replicate)

lemma binary_same:
  "length (val l) = length (val r) \<Longrightarrow>
   binary f l r = Inr (Node f l r (map2 (op_fn f) (val l) (val r)))"
  by (simp add: binary_def broadcast_same)

lemma forward_Const: "forward m (Const x) = Inr (forward_graph m x)"
  by (simp add: forward_def binary_leaf forward_graph_def prediction_def comp_def)

lemma val_forward_graph [simp]: "val (forward_graph m x) = prediction m x"
  by (simp add: forward_graph_def)

lemma length_prediction [simp]: "length (prediction m x) = length x"
  by (simp add: prediction_def)

lemma prediction_spec:
  "prediction m x = spec_forward (data (self_a m)) (data (self_b m)) x"
  by (simp add: prediction_def spec_forward_def mult.commute)

lemma mse_same:
  "length y = length (val yh) \<Longrightarrow> mse (Const y) yh = Inr (mean (square_graph y yh))"
  by (simp add: mse_def binary_same square_graph_def residual_graph_def)

lemma val_square_graph:
  "val (square_graph y yh) = map2 (*) (map2 (-) y (val yh)) (map2 (-) y (val yh))"
  by (simp add: square_graph_def)

subsection \<open>Sums over tensors\<close>

lemma sum_list_nth: "sum_list (u::real list) = (\<Sum>i<length u. u ! i)"
  by (simp add: sum_list_sum_nth atLeast0LessThan)

lemma sum_list_map2_nth:
  assumes "length u = length v"
  shows "sum_list (map2 f u v) = (\<Sum>i<length u. (f (u ! i) (v ! i) :: real))"
proof -
  have "sum_list (map2 f u v) = (\<Sum>i<length (map2 f u v). map2 f u v ! i)"
    by (rule sum_list_nth)
  also have "\<dots> = (\<Sum>i<length u. f (u ! i) (v ! i))"
    using assms by (intro sum.cong) simp_all
  finally show ?thesis .
qed

lemma sum_list_squares:
  fixes y t :: tensor
  assumes "length y = length t"
  shows "sum_list (map2 (*) (map2 (-) y t) (map2 (-) y t)) = (\<Sum>i<length y. (y ! i - t ! i)\<^sup>2)"
proof -
  have "sum_list (map2 (*) (map2 (-) y t) (map2 (-) y t))
      = (\<Sum>i<length (map2 (-) y t). map2 (-) y t ! i * map2 (-) y t ! i)"
    using sum_list_map2_nth [of "map2 (-) y t" "map2 (-) y t" "(*)"] by simp
  also have "\<dots> = (\<Sum>i<length y. (y ! i - t ! i)\<^sup>2)"
    using assms by (intro sum.cong) (simp_all add: power2_eq_square)
  finally show ?thesis .
qed

lemma item_mean_square_graph:
  assumes "length y = length (val yh)" "y \<noteq> []"
  shows "item (mean (square_graph y yh)) = Num (spec_loss y (val yh))"
proof -
  have "val yh \<noteq> []"
    using assms by auto
  then show ?thesis
    using assms
    by (simp add: mean_def mean_value_def val_square_graph sum_list_squares spec_loss_def)
qed

subsection \<open>The reverse pass on the graph of the loop body\<close>

lemma sum_list_sum_to_size [simp]: "sum_list (sum_to_size n g) = sum_list g"
  by (simp add: sum_to_size_def)

lemma sum_to_size_same [simp]: "length g = n \<Longrightarrow> sum_to_size n g = g"
  by (simp add: sum_to_size_def)

lemma expand_same [simp]: "length t = n \<Longrightarrow> expand n t = t"
  by (simp add: expand_def)

lemma backprop_forward_graph:
  "length g = length x \<Longrightarrow>
   backprop (forward_graph m x) g = (sum_list (map2 (*) g x), sum_list g)"
  by (simp add: forward_graph_def prediction_def)

lemma backprop_square_graph:
  "length g = length y \<Longrightarrow> length (val yh) = length y \<Longrightarrow>
   backprop (square_graph y yh) g =
     (let (ga, gb) = backprop yh (map uminus (map2 (*) g (map2 (-) y (val yh))))
      in (ga + ga, gb + gb))"
  by (simp add: square_graph_def residual_graph_def split: prod.splits)

lemma loss_grads_same:
  assumes "length x = length y"
  shows "loss_grads (mean (square_graph y (forward_graph m x))) =
     (let g = map uminus (map2 (*) (replicate (length x) (1 / real (length x)))
                (map2 (-) y (prediction m x)))
      in (sum_list (map2 (*) g x) + sum_list (map2 (*) g x), sum_list g + sum_list g))"
  using assms
  by (simp add: loss_grads_def mean_def val_square_graph backprop_square_graph
      backprop_forward_graph Let_def)

lemma loss_grads_closed:
  assumes len: "length x = length y"
  shows "loss_grads (mean (square_graph y (forward_graph m x))) =
     spec_gradient x y (data (self_a m)) (data (self_b m))"
proof -
  define n where "n = length x"
  define a where "a = data (self_a m)"
  define b where "b = data (self_b m)"
  define g where "g = map uminus (map2 (*) (replicate n (1 / real n)) (map2 (-) y (prediction m x)))"
  have len_g: "length g = length x"
    using len by (simp add: g_def n_def)
  have g_nth: "g ! i = - ((y ! i - (a * x ! i + b)) / real n)" if "i < length x" for i
    using that len by (simp add: g_def n_def prediction_def a_def b_def mult.commute)
  have ga: "sum_list (map2 (*) g x) = - (\<Sum>i<length x. (y ! i - (a * x ! i + b)) * x ! i) / real n"
  proof -
    have "sum_list (map2 (*) g x) = (\<Sum>i<length x. g ! i * x ! i)"
      using len_g by (simp add: sum_list_map2_nth)
    also have "\<dots> = (\<Sum>i<length x. - ((y ! i - (a * x ! i + b)) * x ! i / real n))"
      by (intro sum.cong) (simp_all add: g_nth)
    finally show ?thesis
      by (simp add: sum_negf sum_divide_distrib)
  qed
  have gb: "sum_list g = - (\<Sum>i<length x. y ! i - (a * x ! i + b)) / real n"
  proof -
    have "sum_list g = (\<Sum>i<length x. g ! i)"
      using len_g by (simp add: sum_list_nth [of g])
    also have "\<dots> = (\<Sum>i<length x. - ((y ! i - (a * x ! i + b)) / real n))"
      by (intro sum.cong) (simp_all add: g_nth)
    finally show ?thesis
      by (simp add: sum_negf sum_divide_distrib)
  qed
  have "loss_grads (mean (square_graph y (forward_graph m x))) =
      (sum_list (map2 (*) g x) + sum_list (map2 (*) g x), sum_list g + sum_list g)"
    using len by (simp add: loss_grads_same g_def n_def Let_def)
  also have "\<dots> = spec_gradient x y a b"
    by (simp add: ga gb spec_gradient_def n_def)
  finally show ?thesis
    by (simp add: a_def b_def)
qed

subsection \<open>The closed form is the derivative of the loss\<close>

text \<open>
  The two components of the closed form are the partial derivatives of the mean
  squared error of the affine prediction with respect to \<open>a\<close> and to \<open>b\<close>; with
  \<open>loss_grads_closed\<close>, the reverse pass over the recorded graph computes them.
\<close>

lemma spec_loss_forward:
  assumes "length x = length y"
  shows "spec_loss y (spec_forward a b x) =
     (\<Sum>i<length x. (y ! i - (a * x ! i + b))\<^sup>2) / real (length x)"
proof -
  have "(\<Sum>i<length y. (y ! i - spec_forward a b x ! i)\<^sup>2) =
      (\<Sum>i<length y. (y ! i - (a * x ! i + b))\<^sup>2)"
    using assms by (intro sum.cong) (simp_all add: spec_forward_def)
  then show ?thesis
    using assms by (simp add: spec_loss_def)
qed

lemma spec_gradient_derivative_a:
  assumes "length x = length y"
  shows "((\<lambda>a. spec_loss y (spec_forward a b x)) has_real_derivative
      fst (spec_gradient x y a b)) (at a)"
proof -
  have "((\<lambda>a. \<Sum>i<length x. (y ! i - (a * x ! i + b))\<^sup>2) has_real_derivative
      (\<Sum>i<length x. 2 * (y ! i - (a * x ! i + b)) * (- (x ! i)))) (at a)"
    by (auto intro!: derivative_eq_intros sum.cong)
  then have "((\<lambda>a. (\<Sum>i<length x. (y ! i - (a * x ! i + b))\<^sup>2) / real (length x))
      has_real_derivative
      (\<Sum>i<length x. 2 * (y ! i - (a * x ! i + b)) * (- (x ! i))) / real (length x)) (at a)"
    by (rule DERIV_cdivide)
  moreover have "(\<Sum>i<length x. 2 * (y ! i - (a * x ! i + b)) * (- (x ! i))) =
      - 2 * (\<Sum>i<length x. (y ! i - (a * x ! i + b)) * x ! i)"
    unfolding sum_distrib_left by (intro sum.cong) (simp_all add: algebra_simps)
  then have "(\<Sum>i<length x. 2 * (y ! i - (a * x ! i + b)) * (- (x ! i))) / real (length x) =
      fst (spec_gradient x y a b)"
    by (simp add: spec_gradient_def)
  ultimately show ?thesis
    using assms by (simp add: spec_loss_forward)
qed

lemma spec_gradient_derivative_b:
  assumes "length x = length y"
  shows "((\<lambda>b. spec_loss y (spec_forward a b x)) has_real_derivative
      snd (spec_gradient x y a b)) (at b)"
proof -
  have "((\<lambda>b. \<Sum>i<length x. (y ! i - (a * x ! i + b))\<^sup>2) has_real_derivative
      (\<Sum>i<length x. 2 * (y ! i - (a * x ! i + b)) * (- 1))) (at b)"
    by (auto intro!: derivative_eq_intros sum.cong)
  then have "((\<lambda>b. (\<Sum>i<length x. (y ! i - (a * x ! i + b))\<^sup>2) / real (length x))
      has_real_derivative
      (\<Sum>i<length x. 2 * (y ! i - (a * x ! i + b)) * (- 1)) / real (length x)) (at b)"
    by (rule DERIV_cdivide)
  moreover have "(\<Sum>i<length x. 2 * (y ! i - (a * x ! i + b)) * (- 1)) =
      - 2 * (\<Sum>i<length x. y ! i - (a * x ! i + b))"
    unfolding sum_distrib_left by (intro sum.cong) (simp_all add: algebra_simps)
  then have "(\<Sum>i<length x. 2 * (y ! i - (a * x ! i + b)) * (- 1)) / real (length x) =
      snd (spec_gradient x y a b)"
    by (simp add: spec_gradient_def)
  ultimately show ?thesis
    using assms by (simp add: spec_loss_forward)
qed

subsection \<open>Accumulation and update\<close>

lemma accumulate_pending: "accumulate g p = p\<lparr>grad := Some (pending_grad p + g)\<rparr>"
  by (simp add: accumulate_def pending_grad_def split: option.splits)

lemma backward_eq:
  "backward l m =
     \<lparr>self_a = (self_a m)\<lparr>grad := Some (pending_grad (self_a m) + fst (loss_grads l))\<rparr>,
      self_b = (self_b m)\<lparr>grad := Some (pending_grad (self_b m) + snd (loss_grads l))\<rparr>\<rparr>"
  by (simp add: backward_def accumulate_pending split: prod.splits)

lemma update_parameter_Some:
  "grad p = Some g \<Longrightarrow> update_parameter lr p = Inr \<lparr>data = data p - lr * g, grad = Some 0\<rparr>"
  by (simp add: update_parameter_def)

lemma epoch_same:
  assumes "length thx = length thy"
  shows "epoch lr thx thy s =
     Inr \<lparr>lin =
            \<lparr>self_a = \<lparr>data = data (self_a (lin s)) - lr *
                  (pending_grad (self_a (lin s)) +
                   fst (loss_grads (mean (square_graph thy (forward_graph (lin s) thx))))),
                grad = Some 0\<rparr>,
             self_b = \<lparr>data = data (self_b (lin s)) - lr *
                  (pending_grad (self_b (lin s)) +
                   snd (loss_grads (mean (square_graph thy (forward_graph (lin s) thx))))),
                grad = Some 0\<rparr>\<rparr>,
          yhat = prediction (lin s) thx,
          loss = Some (item (mean (square_graph thy (forward_graph (lin s) thx))))\<rparr>"
  using assms
  by (simp add: epoch_def forward_Const mse_same backward_eq update_parameters_def
      update_parameter_Some)

lemma epoch_fresh:
  assumes "length thx = length thy" and "thx \<noteq> []"
    and "pending_grad (self_a (lin s)) = 0" and "pending_grad (self_b (lin s)) = 0"
  shows "epoch lr thx thy s =
     Inr \<lparr>lin =
            \<lparr>self_a = \<lparr>data = fst (spec_step (fst (params s)) (snd (params s))
                    (fst (spec_gradient thx thy (fst (params s)) (snd (params s))))
                    (snd (spec_gradient thx thy (fst (params s)) (snd (params s)))) lr),
                grad = Some 0\<rparr>,
             self_b = \<lparr>data = snd (spec_step (fst (params s)) (snd (params s))
                    (fst (spec_gradient thx thy (fst (params s)) (snd (params s))))
                    (snd (spec_gradient thx thy (fst (params s)) (snd (params s)))) lr),
                grad = Some 0\<rparr>\<rparr>,
          yhat = spec_forward (fst (params s)) (snd (params s)) thx,
          loss = Some (Num (spec_loss thy (spec_forward (fst (params s)) (snd (params s)) thx)))\<rparr>"
proof -
  have "thy \<noteq> []"
    using assms(1,2) by auto
  then have "item (mean (square_graph thy (forward_graph (lin s) thx))) =
      Num (spec_loss thy (prediction (lin s) thx))"
    using assms(1) item_mean_square_graph [of thy "forward_graph (lin s) thx"] by simp
  then show ?thesis
    using assms
    by (simp add: epoch_same loss_grads_closed prediction_spec params_def spec_step_def)
qed

subsection \<open>The loop\<close>

lemma for_epochs_add:
  "for_epochs (j + k) lr thx thy s =
     bind_err (for_epochs j lr thx thy s) (for_epochs k lr thx thy)"
proof (induction j arbitrary: s)
  case 0
  show ?case by simp
next
  case (Suc j)
  show ?case
    by (cases "epoch lr thx thy s") (simp_all add: Suc.IH)
qed

lemma for_epochs_zeroed:
  assumes "length thx = length thy"
    and "grad (self_a (lin s)) = Some 0" and "grad (self_b (lin s)) = Some 0"
  shows "\<exists>sk. for_epochs k lr thx thy s = Inr sk \<and>
     grad (self_a (lin sk)) = Some 0 \<and> grad (self_b (lin sk)) = Some 0"
  using assms(2,3)
proof (induction k arbitrary: s)
  case 0
  then show ?case by simp
next
  case (Suc k)
  obtain s1 where s1: "epoch lr thx thy s = Inr s1"
    "grad (self_a (lin s1)) = Some 0" "grad (self_b (lin s1)) = Some 0"
    using assms(1) by (simp add: epoch_same)
  from Suc.IH [OF s1(2,3)] show ?case
    by (simp add: s1(1))
qed

lemma for_epochs_clear:
  assumes "length thx = length thy"
    and "pending_grad (self_a (lin s)) = 0" and "pending_grad (self_b (lin s)) = 0"
  shows "\<exists>sk. for_epochs k lr thx thy s = Inr sk \<and>
     pending_grad (self_a (lin sk)) = 0 \<and> pending_grad (self_b (lin sk)) = 0 \<and>
     (0 < k \<longrightarrow> grad (self_a (lin sk)) = Some 0 \<and> grad (self_b (lin sk)) = Some 0)"
proof (cases k)
  case 0
  then show ?thesis using assms(2,3) by simp
next
  case (Suc j)
  obtain s1 where s1: "epoch lr thx thy s = Inr s1"
    "grad (self_a (lin s1)) = Some 0" "grad (self_b (lin s1)) = Some 0"
    using assms(1) by (simp add: epoch_same)
  from for_epochs_zeroed [OF assms(1) s1(2,3), of j lr] show ?thesis
    by (auto simp: Suc s1(1) pending_grad_def)
qed

lemma for_epochs_spec_train:
  assumes "length thx = length thy" and "thx \<noteq> []"
    and "pending_grad (self_a (lin s)) = 0" and "pending_grad (self_b (lin s)) = 0"
  shows "\<exists>s'. for_epochs k lr thx thy s = Inr s' \<and>
     params s' = fst (spec_train thx thy (params s) lr k) \<and>
     length (snd (spec_train thx thy (params s) lr k)) = k \<and>
     losses_kept s' =
       (if k = 0 then losses_kept s
        else [Num (last (snd (spec_train thx thy (params s) lr k)))])"
  using assms(3,4)
proof (induction k arbitrary: s)
  case 0
  then show ?case by simp
next
  case (Suc k)
  let ?p = "params s"
  let ?g = "spec_gradient thx thy (fst ?p) (snd ?p)"
  let ?l = "spec_loss thy (spec_forward (fst ?p) (snd ?p) thx)"
  obtain s1 where s1: "epoch lr thx thy s = Inr s1"
    and p1: "params s1 = spec_step (fst ?p) (snd ?p) (fst ?g) (snd ?g) lr"
    and l1: "losses_kept s1 = [Num ?l]"
    and g1: "pending_grad (self_a (lin s1)) = 0" "pending_grad (self_b (lin s1)) = 0"
    using epoch_fresh [OF assms(1,2) Suc.prems, of lr]
    by (simp add: params_def losses_kept_def pending_grad_def)
  from Suc.IH [OF g1] obtain s' where s': "for_epochs k lr thx thy s1 = Inr s'"
    and p': "params s' = fst (spec_train thx thy (params s1) lr k)"
    and n': "length (snd (spec_train thx thy (params s1) lr k)) = k"
    and l': "losses_kept s' =
       (if k = 0 then losses_kept s1
        else [Num (last (snd (spec_train thx thy (params s1) lr k)))])"
    by blast
  have unroll: "spec_train thx thy ?p lr (Suc k) =
      (fst (spec_train thx thy (params s1) lr k), ?l # snd (spec_train thx thy (params s1) lr k))"
    by (simp add: p1 split: prod.splits)
  have "for_epochs (Suc k) lr thx thy s = Inr s'"
    by (simp add: s1 s')
  moreover have "params s' = fst (spec_train thx thy ?p lr (Suc k))"
    by (simp add: unroll p' del: spec_train.simps)
  moreover have "length (snd (spec_train thx thy ?p lr (Suc k))) = Suc k"
    by (simp add: unroll n' del: spec_train.simps)
  moreover have "losses_kept s' = [Num (last (snd (spec_train thx thy ?p lr (Suc k))))]"
  proof (cases "k = 0")
    case True
    then have "snd (spec_train thx thy (params s1) lr k) = []"
      using n' by simp
    then have "last (snd (spec_train thx thy ?p lr (Suc k))) = ?l"
      unfolding unroll by simp
    then show ?thesis
      using True l' l1 by (simp del: spec_train.simps)
  next
    case False
    then have "snd (spec_train thx thy (params s1) lr k) \<noteq> []"
      using n' by auto
    then have "last (snd (spec_train thx thy ?p lr (Suc k))) =
        last (snd (spec_train thx thy (params s1) lr k))"
      unfolding unroll by simp
    then show ?thesis
      using False l' by (simp del: spec_train.simps)
  qed
  ultimately show ?case
    by (intro exI [of _ s']) (simp del: spec_train.simps)
qed

lemma fst_spec_train_funpow:
  "fst (spec_train x y p lr k) =
     ((\<lambda>(a, b). (a - lr * fst (spec_gradient x y a b),
                 b - lr * snd (spec_gradient x y a b))) ^^ k) p"
proof (induction k arbitrary: p)
  case 0
  show ?case by simp
next
  case (Suc k)
  let ?f = "\<lambda>(a, b). (a - lr * fst (spec_gradient x y a b),
                         b - lr * snd (spec_gradient x y a b))"
  have "fst (spec_train x y p lr (Suc k)) = fst (spec_train x y (?f p) lr k)"
    by (simp add: spec_step_def split: prod.splits)
  also have "\<dots> = (?f ^^ k) (?f p)"
    by (rule Suc.IH)
  also have "\<dots> = (?f ^^ Suc k) p"
    by (simp add: funpow_swap1)
  finally show ?case .
qed

subsection \<open>The dataset\<close>

lemma array_item_in_range:
  "0 \<le> i \<Longrightarrow> i < int (length xs) \<Longrightarrow> array_item xs i = Inr (xs ! nat i)"
  by (simp add: array_item_def)

text \<open>
  Claim C10. Constructing \<^verbatim>\<open>WineData(x, y)\<close> fails with an assertion error when
  \<open>x\<close> and \<open>y\<close> differ in length. When they have the same length the construction
  succeeds, \<^verbatim>\<open>len(d)\<close> is that common length, and for every index \<open>i\<close> with
  \<open>0 \<le> i < len(d)\<close> the item \<^verbatim>\<open>d[i]\<close> is the pair of \<open>x[i]\<close> and \<open>y[i]\<close>, each cast
  to single precision.
\<close>

theorem WineData_contract:
  "(length x \<noteq> length y \<longrightarrow> WineData_init single x y = Inl AssertionError) \<and>
   (length x = length y \<longrightarrow>
      (\<exists>d. WineData_init single x y = Inr d \<and>
           WineData_len d = length x \<and> WineData_len d = length y \<and>
           (\<forall>i. 0 \<le> i \<and> i < int (WineData_len d) \<longrightarrow>
                WineData_getitem d i = Inr (single (x ! nat i), single (y ! nat i)))))"
  by (auto simp: WineData_init_def WineData_len_def WineData_getitem_def array_item_in_range)

text \<open>Arrays of sizes 2 and 1 are refused; of sizes 2 and 2, item 1 is the second pair.\<close>

theorem WineData_contract_witness:
  "WineData_init (\<lambda>v::real. v) [1, 2] [3] = Inl AssertionError \<and>
   (\<exists>d. WineData_init (\<lambda>v::real. v) [1, 2] [3, 4] = Inr d \<and> WineData_len d = 2 \<and>
        WineData_getitem d 1 = Inr (2, 4))"
  using WineData_contract [of "[1, 2]" "[3]" "\<lambda>v::real. v"]
    WineData_contract [of "[1, 2]" "[3, 4]" "\<lambda>v::real. v"]
  by auto

subsection \<open>The update\<close>

lemma update_parameter_None:
  "grad p = None \<Longrightarrow> update_parameter lr p = Inl TypeError"
  by (simp add: update_parameter_def)

text \<open>
  Claim C2, amended. For all parameter values \<open>a\<close>, \<open>b\<close>, gradients \<open>ga\<close>, \<open>gb\<close> held
  in their \<^verbatim>\<open>.grad\<close>, and every learning rate, the update of the loop body leaves
  exactly the specification's step \<open>(a - lr * ga, b - lr * gb)\<close> in the parameters, a
  result fixed by these five numbers alone. It is not a pure function of them: it
  takes the gradients from the parameters, writes the new values in their place and
  sets both gradients to zero, so that running it once more, with any rate, changes
  nothing. On a parameter whose gradient is \<^verbatim>\<open>None\<close> it raises a TypeError.
\<close>

theorem update_parameters_in_place:
  "(grad (self_a m) = Some ga \<and> grad (self_b m) = Some gb \<longrightarrow>
      update_parameters lr m =
        Inr \<lparr>self_a = \<lparr>data = data (self_a m) - lr * ga, grad = Some 0\<rparr>,
             self_b = \<lparr>data = data (self_b m) - lr * gb, grad = Some 0\<rparr>\<rparr> \<and>
      map_sum id (\<lambda>m'. (data (self_a m'), data (self_b m'))) (update_parameters lr m) =
        Inr (spec_step (data (self_a m)) (data (self_b m)) ga gb lr) \<and>
      bind_err (update_parameters lr m) (update_parameters lr') = update_parameters lr m) \<and>
   (grad (self_a m) = None \<or> grad (self_b m) = None \<longrightarrow>
      update_parameters lr m = Inl TypeError)"
proof (intro conjI impI)
  assume g: "grad (self_a m) = Some ga \<and> grad (self_b m) = Some gb"
  then show upd: "update_parameters lr m =
      Inr \<lparr>self_a = \<lparr>data = data (self_a m) - lr * ga, grad = Some 0\<rparr>,
           self_b = \<lparr>data = data (self_b m) - lr * gb, grad = Some 0\<rparr>\<rparr>"
    by (simp add: update_parameters_def update_parameter_Some)
  then show "map_sum id (\<lambda>m'. (data (self_a m'), data (self_b m'))) (update_parameters lr m) =
      Inr (spec_step (data (self_a m)) (data (self_b m)) ga gb lr)"
    by (simp add: spec_step_def)
  from upd show "bind_err (update_parameters lr m) (update_parameters lr') =
      update_parameters lr m"
    by (simp add: update_parameters_def update_parameter_Some)
next
  assume "grad (self_a m) = None \<or> grad (self_b m) = None"
  then show "update_parameters lr m = Inl TypeError"
    by (cases "grad (self_a m)")
      (auto simp: update_parameters_def update_parameter_None update_parameter_Some)
qed

text \<open>
  With \<open>a = 3\<close>, \<open>b = 1\<close>, gradients \<open>4\<close> and \<open>-2\<close> and rate \<open>1/2\<close> the update leaves
  \<open>(1, 2)\<close> and zero gradients; a model fresh from the constructor is refused.
\<close>

theorem update_parameters_in_place_witness:
  "update_parameters (1 / 2)
     \<lparr>self_a = \<lparr>data = 3, grad = Some 4\<rparr>, self_b = \<lparr>data = 1, grad = Some (- 2)\<rparr>\<rparr> =
     Inr \<lparr>self_a = \<lparr>data = 1, grad = Some 0\<rparr>, self_b = \<lparr>data = 2, grad = Some 0\<rparr>\<rparr> \<and>
   update_parameters (1 / 2) \<lparr>self_a = Parameter 3, self_b = Parameter 1\<rparr> = Inl TypeError"
  using update_parameters_in_place [of
      "\<lparr>self_a = \<lparr>data = 3, grad = Some 4\<rparr>, self_b = \<lparr>data = 1, grad = Some (- 2)\<rparr>\<rparr>"
      4 "- 2" "1 / 2"]
    update_parameters_in_place [of "\<lparr>self_a = Parameter 3, self_b = Parameter 1\<rparr>" 0 0 "1 / 2"]
  by (simp add: Parameter_def)

text \<open>
  Against the claim as stated: the update is not pure. Applied twice to \<open>a = 3\<close>,
  \<open>b = 1\<close> with gradients \<open>4\<close> and \<open>-2\<close> and rate \<open>1/2\<close> it leaves \<open>(1, 2)\<close>, the
  gradients having been set to zero by the first run, where the step of the claim
  applied twice with the same gradients and rate gives \<open>(-1, 3)\<close>.
\<close>

theorem update_not_pure_counterexample:
  "bind_err
     (update_parameters (1 / 2)
        \<lparr>self_a = \<lparr>data = 3, grad = Some 4\<rparr>, self_b = \<lparr>data = 1, grad = Some (- 2)\<rparr>\<rparr>)
     (update_parameters (1 / 2)) =
     Inr \<lparr>self_a = \<lparr>data = 1, grad = Some 0\<rparr>, self_b = \<lparr>data = 2, grad = Some 0\<rparr>\<rparr> \<and>
   spec_step 3 1 4 (- 2) (1 / 2) = (1, 2) \<and>
   spec_step 1 2 4 (- 2) (1 / 2) = (- 1, 3)"
  by (simp add: update_parameters_def update_parameter_Some spec_step_def)

subsection \<open>The gradient\<close>




subsection \<open>Initialisation\<close>

text \<open>
  Claim C6. Any two constructions of the model return identical parameter pairs: from
  any two generator states \<open>g\<close> and \<open>g'\<close>, and so for every seed \<open>s\<close> also when the
  caller seeds the generator with \<open>s\<close> before each of them (or with different seeds
  \<open>s\<close> and \<open>s'\<close>). The constructor takes no seed itself: what it returns is the pair
  that the specification's \<open>initialize\<close> gives for the seed 7. This holds for every
  state \<open>manual_seed\<close> may install and every way \<open>rand\<close> may draw.
\<close>

theorem MyLinearModel_init_deterministic:
  "fst (MyLinearModel_init manual_seed rand g) = fst (MyLinearModel_init manual_seed rand g') \<and>
   fst (MyLinearModel_init manual_seed rand (manual_seed s)) =
     fst (MyLinearModel_init manual_seed rand (manual_seed s')) \<and>
   (data (self_a (fst (MyLinearModel_init manual_seed rand g))),
    data (self_b (fst (MyLinearModel_init manual_seed rand g)))) =
     spec_initialize manual_seed rand 7"
  by (simp add: MyLinearModel_init_def spec_initialize_def Parameter_def split: prod.splits)

text \<open>
  Claim C9. The constructor takes no seed: it seeds the global generator with 7 and
  then draws \<open>a\<close> and \<open>b\<close> in that order, so the parameters are the first two draws
  after seed 7, each without a gradient, and the generator is left in the state after
  those two draws. Neither depends on the generator state \<open>g\<close> before the call: any
  two constructions agree in the model and in the state they leave.
\<close>

theorem MyLinearModel_init_seed_7:
  "MyLinearModel_init manual_seed rand g =
     (\<lparr>self_a = \<lparr>data = fst (rand (manual_seed 7)), grad = None\<rparr>,
       self_b = \<lparr>data = fst (rand (snd (rand (manual_seed 7)))), grad = None\<rparr>\<rparr>,
      snd (rand (snd (rand (manual_seed 7))))) \<and>
   MyLinearModel_init manual_seed rand g = MyLinearModel_init manual_seed rand g'"
  by (simp add: MyLinearModel_init_def Parameter_def split: prod.splits)


subsection \<open>The loss\<close>

lemma broadcast_one_left: "broadcast_tensors [c] v = Inr (replicate (length v) c, v)"
  by (cases v rule: list.exhaust; cases "tl v") (auto simp: broadcast_tensors_def)

lemma map2_replicate_left: "map2 f (replicate (length v) c) v = map (f c) v"
  by (induction v) simp_all

lemma map2_same: "map2 f u u = map (\<lambda>e. f e e) u"
  by (induction u) simp_all

lemma op_fn_eq [simp]:
  "op_fn AddBackward = (+)" "op_fn SubBackward = (-)" "op_fn MulBackward = (*)"
  by (intro ext; simp)+

lemma mse_one_left:
  "mse (Const [c]) yh =
     Inr (mean (Node MulBackward
       (Node SubBackward (Const [c]) yh (map (\<lambda>v. c - v) (val yh)))
       (Node SubBackward (Const [c]) yh (map (\<lambda>v. c - v) (val yh)))
       (map (\<lambda>v. (c - v) * (c - v)) (val yh))))"
  by (simp add: mse_def binary_def broadcast_one_left map2_replicate_left broadcast_same
      map2_same comp_def)

lemma mse_one_right:
  assumes "val yh = [c]"
  shows "mse (Const y) yh =
     Inr (mean (Node MulBackward
       (Node SubBackward (Const y) yh (map (\<lambda>v. v - c) y))
       (Node SubBackward (Const y) yh (map (\<lambda>v. v - c) y))
       (map (\<lambda>v. (v - c) * (v - c)) y)))"
  by (simp add: mse_def binary_def assms broadcast_one map2_replicate broadcast_same
      map2_same comp_def)

lemma mse_mismatch:
  assumes "length y \<noteq> length (val yh)" and "length y \<noteq> 1" and "length (val yh) \<noteq> 1"
  shows "mse (Const y) yh = Inl ShapeMismatch"
  using assms by (simp add: mse_def binary_def broadcast_tensors_def)

lemma spec_loss_nonneg: "0 \<le> spec_loss y t"
  by (simp add: spec_loss_def sum_nonneg)

lemma spec_loss_self: "spec_loss y y = 0"
  by (simp add: spec_loss_def)

text \<open>
  Claim C4, amended. For \<open>y\<close> and \<open>yhat\<close> of the same size \<open>n > 0\<close> the loss is the
  number \<open>(\<Sum> (y\<^sub>i - yhat\<^sub>i)\<^sup>2) / n\<close>. When the sizes differ and neither is 1 the loss
  raises the size-mismatch error and yields no value. A tensor of size 1 is broadcast
  against the other operand, whatever that one's size, and the loss is the mean of
  the squared differences from its single entry.
\<close>

theorem mse_by_shape:
  "(length y = length (val yh) \<and> y \<noteq> [] \<longrightarrow>
      map_sum id item (mse (Const y) yh) = Inr (Num (spec_loss y (val yh)))) \<and>
   (length y \<noteq> length (val yh) \<and> length y \<noteq> 1 \<and> length (val yh) \<noteq> 1 \<longrightarrow>
      mse (Const y) yh = Inl ShapeMismatch) \<and>
   map_sum id item (mse (Const [c]) yh) = Inr (mean_value (map (\<lambda>v. (c - v)\<^sup>2) (val yh))) \<and>
   (val yh = [c] \<longrightarrow>
      map_sum id item (mse (Const y) yh) = Inr (mean_value (map (\<lambda>v. (v - c)\<^sup>2) y)))"
proof (intro conjI impI)
  assume "length y = length (val yh) \<and> y \<noteq> []"
  then show "map_sum id item (mse (Const y) yh) = Inr (Num (spec_loss y (val yh)))"
    by (simp add: mse_same item_mean_square_graph)
next
  assume "length y \<noteq> length (val yh) \<and> length y \<noteq> 1 \<and> length (val yh) \<noteq> 1"
  then show "mse (Const y) yh = Inl ShapeMismatch"
    by (simp add: mse_mismatch)
next
  show "map_sum id item (mse (Const [c]) yh) =
      Inr (mean_value (map (\<lambda>v. (c - v)\<^sup>2) (val yh)))"
    by (simp add: mse_one_left mean_def power2_eq_square)
next
  assume "val yh = [c]"
  then show "map_sum id item (mse (Const y) yh) = Inr (mean_value (map (\<lambda>v. (v - c)\<^sup>2) y))"
    by (simp add: mse_one_right mean_def power2_eq_square)
qed

text \<open>
  Sizes 3 and 3 give the mean of the squares, sizes 3 and 4 raise, and a target of
  size 1 is broadcast in either position.
\<close>

theorem mse_by_shape_witness:
  "map_sum id item (mse (Const [1, 2, 3]) (Const [1, 1, 1])) = Inr (Num (5 / 3)) \<and>
   mse (Const [1, 2, 3]) (Const [1, 2, 3, 4]) = Inl ShapeMismatch \<and>
   map_sum id item (mse (Const [1, 2, 3]) (Const [1])) = Inr (Num (5 / 3))"
  using mse_by_shape [of "[1, 2, 3]" "Const [1, 1, 1]" 0]
    mse_by_shape [of "[1, 2, 3]" "Const [1, 2, 3, 4]" 0]
    mse_by_shape [of "[1, 2, 3]" "Const [1]" 1]
  by (simp add: spec_loss_def mean_value_def lessThan_Suc eval_nat_numeral)

text \<open>
  Against the claim as stated: a target of size 1 and a prediction of size 4 differ in
  length, and the loss returns \<open>7/2\<close>.
\<close>

theorem mse_broadcast_counterexample:
  "map_sum id item (mse (Const [1]) (Const [1, 2, 3, 4])) = Inr (Num (7 / 2))"
  by (simp add: mse_one_left mean_def mean_value_def)

text \<open>
  Claim C7, amended. For \<open>y\<close> and \<open>yhat\<close> of the same size \<open>n > 0\<close> whose entries are
  finite numbers, the loss is not negative; for every non-empty \<open>y\<close> of finite
  numbers, the loss of \<open>y\<close> against itself is exactly 0. The entries of a tensor are
  reals here, so \<open>y\<close> and \<open>yhat\<close> range over the tensors without \<^verbatim>\<open>inf\<close> or \<^verbatim>\<open>nan\<close>
  entries; with such an entry the loss of the notebook can be \<^verbatim>\<open>nan\<close>, as it is on
  empty input.
\<close>

theorem mse_nonnegative:
  "(y \<noteq> [] \<and> length y = length (val yh) \<longrightarrow>
      (\<exists>v. map_sum id item (mse (Const y) yh) = Inr (Num v) \<and> 0 \<le> v)) \<and>
   (y \<noteq> [] \<longrightarrow> map_sum id item (mse (Const y) (Const y)) = Inr (Num 0))"
  by (simp add: mse_same item_mean_square_graph spec_loss_nonneg spec_loss_self)

text \<open>The loss of \<open>[1, 2]\<close> against \<open>[3, 5]\<close> is a number at least 0; against itself it is 0.\<close>

theorem mse_nonnegative_witness:
  "(\<exists>v. map_sum id item (mse (Const [1, 2]) (Const [3, 5])) = Inr (Num v) \<and> 0 \<le> v) \<and>
   map_sum id item (mse (Const [1, 2]) (Const [1, 2])) = Inr (Num 0)"
  using mse_nonnegative [of "[1, 2]" "Const [3, 5]"] mse_nonnegative [of "[1, 2]" "Const [1, 2]"]
  by simp

text \<open>
  Against the claim as stated: the loss of the empty sequence against itself is NaN,
  which is neither 0 nor at least 0.
\<close>

theorem mse_empty_counterexample:
  "map_sum id item (mse (Const []) (Const [])) = Inr NaN"
  by (simp add: mse_same mean_def mean_value_def val_square_graph)


subsection \<open>The training loop\<close>

text \<open>
  Claim C3, amended. For observations of the same size \<open>n > 0\<close> and a model that holds
  no gradient, the loop runs without error and performs exactly \<open>num_epochs\<close>
  iterations (none when \<open>num_epochs\<close> is negative), each one the specification's
  forward, loss, gradient and step applied to the parameters of the iteration before:
  the parameters it leaves in \<^verbatim>\<open>lin\<close> are those that the specification's \<open>train\<close>
  returns. The specification's loss history has one entry per iteration, but the
  cell keeps no history: after the loop \<^verbatim>\<open>loss\<close> holds only the last entry, and it
  is untouched when no iteration ran.
\<close>

theorem gradient_descent_refines_train:
  assumes "length thx = length thy" and "thx \<noteq> []"
    and "pending_grad (self_a (lin s)) = 0" and "pending_grad (self_b (lin s)) = 0"
  shows "\<exists>s'. gradient_descent lr num_epochs thx thy s = Inr s' \<and>
     params s' = fst (spec_train thx thy (params s) lr (nat num_epochs)) \<and>
     length (snd (spec_train thx thy (params s) lr (nat num_epochs))) = nat num_epochs \<and>
     losses_kept s' =
       (if nat num_epochs = 0 then losses_kept s
        else [Num (last (snd (spec_train thx thy (params s) lr (nat num_epochs))))])"
  unfolding gradient_descent_def using assms by (rule for_epochs_spec_train)

text \<open>
  Two epochs on \<open>x = [1]\<close>, \<open>y = [2]\<close> from \<open>a = b = 0\<close> with rate \<open>1/10\<close> leave
  \<open>a = b = 16/25\<close> and the loss \<open>36/25\<close> of the second epoch.
\<close>

theorem gradient_descent_refines_train_witness:
  "\<exists>s'. gradient_descent (1 / 10) 2 [1] [2]
       \<lparr>lin = \<lparr>self_a = Parameter 0, self_b = Parameter 0\<rparr>, yhat = [0], loss = None\<rparr> = Inr s' \<and>
     params s' = (16 / 25, 16 / 25) \<and> losses_kept s' = [Num (36 / 25)]"
  using gradient_descent_refines_train [of "[1]" "[2]"
      "\<lparr>lin = \<lparr>self_a = Parameter 0, self_b = Parameter 0\<rparr>, yhat = [0], loss = None\<rparr>"
      "1 / 10" 2]
  by (simp add: Parameter_def pending_grad_def params_def spec_loss_def spec_forward_def
      spec_gradient_def spec_step_def eval_nat_numeral power2_eq_square)

text \<open>
  Against the claim as stated: after two epochs the specification's history is
  \<open>[4, 36/25]\<close>, and the cell holds the single value \<open>36/25\<close>.
\<close>

theorem loss_history_counterexample:
  "snd (spec_train [1] [2] (0, 0) (1 / 10) 2) = [4, 36 / 25] \<and>
   map_sum id losses_kept
     (gradient_descent (1 / 10) 2 [1] [2]
        \<lparr>lin = \<lparr>self_a = Parameter 0, self_b = Parameter 0\<rparr>, yhat = [0], loss = None\<rparr>) =
   Inr [Num (36 / 25)]"
  by (simp add: gradient_descent_def epoch_fresh Parameter_def pending_grad_def params_def
      losses_kept_def spec_loss_def spec_forward_def spec_gradient_def spec_step_def
      eval_nat_numeral power2_eq_square)

text \<open>
  Claim C5, amended. The cell validates neither hyperparameter and raises no error
  for them. On observations of the same size \<open>n > 0\<close> and a model that holds no
  gradient, with any learning rate, also zero or negative, and any \<open>num_epochs\<close>, the
  loop runs to its end; it performs exactly \<open>num_epochs\<close> epochs (none for a negative
  count), and every one of them replaces \<open>(a, b)\<close> by
  \<open>(a - lr * grad_a, b - lr * grad_b)\<close> with the rate exactly as it is given: the rate
  is never clamped. With a negative or zero \<open>num_epochs\<close> the loop runs no epoch and
  leaves every variable as it was, whatever the data and the rate.
\<close>

theorem gradient_descent_unvalidated:
  "(num_epochs \<le> 0 \<longrightarrow> gradient_descent lr num_epochs thx thy s = Inr s) \<and>
   (length thx = length thy \<and> thx \<noteq> [] \<and>
    pending_grad (self_a (lin s)) = 0 \<and> pending_grad (self_b (lin s)) = 0 \<longrightarrow>
      (\<exists>s'. gradient_descent lr num_epochs thx thy s = Inr s' \<and>
         params s' =
           ((\<lambda>(a, b). (a - lr * fst (spec_gradient thx thy a b),
                       b - lr * snd (spec_gradient thx thy a b))) ^^ nat num_epochs)
             (params s)))"
proof (intro conjI impI)
  assume "num_epochs \<le> 0"
  then show "gradient_descent lr num_epochs thx thy s = Inr s"
    by (simp add: gradient_descent_def)
next
  assume h: "length thx = length thy \<and> thx \<noteq> [] \<and>
    pending_grad (self_a (lin s)) = 0 \<and> pending_grad (self_b (lin s)) = 0"
  then obtain s' where "for_epochs (nat num_epochs) lr thx thy s = Inr s'"
    and "params s' = fst (spec_train thx thy (params s) lr (nat num_epochs))"
    using for_epochs_spec_train [of thx thy s "nat num_epochs" lr] by blast
  then show "\<exists>s'. gradient_descent lr num_epochs thx thy s = Inr s' \<and>
      params s' =
        ((\<lambda>(a, b). (a - lr * fst (spec_gradient thx thy a b),
                    b - lr * snd (spec_gradient thx thy a b))) ^^ nat num_epochs)
          (params s)"
    by (simp add: gradient_descent_def fst_spec_train_funpow)
qed

text \<open>
  With rate \<open>-1/10\<close>, two epochs on \<open>x = [1]\<close>, \<open>y = [2]\<close> from \<open>a = b = 0\<close> succeed
  and move both parameters away from the data, to \<open>-24/25\<close>; with \<open>num_epochs = -3\<close>
  the state is returned as it was.
\<close>

theorem gradient_descent_unvalidated_witness:
  "(\<exists>s'. gradient_descent (- 1 / 10) 2 [1] [2]
       \<lparr>lin = \<lparr>self_a = Parameter 0, self_b = Parameter 0\<rparr>, yhat = [0], loss = None\<rparr> = Inr s' \<and>
       params s' = (- 24 / 25, - 24 / 25)) \<and>
   gradient_descent (- 1 / 10) (- 3) [1] [2]
       \<lparr>lin = \<lparr>self_a = Parameter 0, self_b = Parameter 0\<rparr>, yhat = [0], loss = None\<rparr> =
     Inr \<lparr>lin = \<lparr>self_a = Parameter 0, self_b = Parameter 0\<rparr>, yhat = [0], loss = None\<rparr>"
  using gradient_descent_unvalidated [of 2 "- 1 / 10" "[1]" "[2]"
      "\<lparr>lin = \<lparr>self_a = Parameter 0, self_b = Parameter 0\<rparr>, yhat = [0], loss = None\<rparr>"]
    gradient_descent_unvalidated [of "- 3" "- 1 / 10" "[1]" "[2]"
      "\<lparr>lin = \<lparr>self_a = Parameter 0, self_b = Parameter 0\<rparr>, yhat = [0], loss = None\<rparr>"]
  by (simp add: Parameter_def pending_grad_def params_def spec_gradient_def eval_nat_numeral)

text \<open>
  Against the claim as stated: with learning rate \<open>-1/10\<close> no error is raised; the
  epoch runs and moves both parameters from \<open>0\<close> to \<open>-2/5\<close>.
\<close>

theorem negative_learning_rate_counterexample:
  "gradient_descent (- 1 / 10) 1 [1] [2]
     \<lparr>lin = \<lparr>self_a = Parameter 0, self_b = Parameter 0\<rparr>, yhat = [0], loss = None\<rparr> =
   Inr \<lparr>lin = \<lparr>self_a = \<lparr>data = - 2 / 5, grad = Some 0\<rparr>,
               self_b = \<lparr>data = - 2 / 5, grad = Some 0\<rparr>\<rparr>,
        yhat = [0], loss = Some (Num 4)\<rparr>"
  by (simp add: gradient_descent_def epoch_fresh Parameter_def pending_grad_def params_def
      spec_loss_def spec_forward_def spec_gradient_def spec_step_def power2_eq_square)


text \<open>
  Claim C8. Let the loop start on observations of the same size with a model whose
  parameters hold no gradient (\<^verbatim>\<open>None\<close>, as after construction, or zero). Then every
  iteration \<open>k\<close> of the \<open>num_epochs\<close> is reached, and in the state \<open>sk\<close> at its start
  both accumulators contribute nothing; from the second iteration on they are the
  zero that the iteration before stored. The gradient that \<^verbatim>\<open>backward()\<close> leaves in
  iteration \<open>k\<close> is the one computed from the loss of the current parameters and the
  observations, the update consumes it once and stores zero again. Nothing but the
  parameter pair is carried from one iteration to the next: any state with the same
  pair and no pending gradient gives the same result of the iteration.
\<close>

theorem no_gradient_carried_over:
  assumes "length thx = length thy"
    and "pending_grad (self_a (lin s)) = 0" and "pending_grad (self_b (lin s)) = 0"
    and "k < nat num_epochs"
  shows "\<exists>sk yh l.
     for_epochs k lr thx thy s = Inr sk \<and>
     gradient_descent lr num_epochs thx thy s =
       bind_err (epoch lr thx thy sk) (for_epochs (nat num_epochs - Suc k) lr thx thy) \<and>
     pending_grad (self_a (lin sk)) = 0 \<and> pending_grad (self_b (lin sk)) = 0 \<and>
     (0 < k \<longrightarrow> grad (self_a (lin sk)) = Some 0 \<and> grad (self_b (lin sk)) = Some 0) \<and>
     forward (lin sk) (Const thx) = Inr yh \<and> mse (Const thy) yh = Inr l \<and>
     grad (self_a (backward l (lin sk))) = Some (fst (loss_grads l)) \<and>
     grad (self_b (backward l (lin sk))) = Some (snd (loss_grads l)) \<and>
     epoch lr thx thy sk =
       Inr \<lparr>lin = \<lparr>self_a = \<lparr>data = data (self_a (lin sk)) - lr * fst (loss_grads l),
                              grad = Some 0\<rparr>,
                   self_b = \<lparr>data = data (self_b (lin sk)) - lr * snd (loss_grads l),
                              grad = Some 0\<rparr>\<rparr>,
            yhat = val yh, loss = Some (item l)\<rparr> \<and>
     (\<forall>t. params t = params sk \<and>
          pending_grad (self_a (lin t)) = 0 \<and> pending_grad (self_b (lin t)) = 0 \<longrightarrow>
          epoch lr thx thy t = epoch lr thx thy sk)"
proof -
  obtain sk where sk: "for_epochs k lr thx thy s = Inr sk"
    and clear: "pending_grad (self_a (lin sk)) = 0" "pending_grad (self_b (lin sk)) = 0"
    and zeroed: "0 < k \<longrightarrow> grad (self_a (lin sk)) = Some 0 \<and> grad (self_b (lin sk)) = Some 0"
    using for_epochs_clear [OF assms(1-3), of k lr] by blast
  let ?yh = "forward_graph (lin sk) thx"
  let ?l = "mean (square_graph thy ?yh)"
  have split: "nat num_epochs = k + Suc (nat num_epochs - Suc k)"
    using assms(4) by simp
  have "gradient_descent lr num_epochs thx thy s =
      bind_err (for_epochs k lr thx thy s) (for_epochs (Suc (nat num_epochs - Suc k)) lr thx thy)"
    unfolding gradient_descent_def by (subst split) (rule for_epochs_add)
  then have run: "gradient_descent lr num_epochs thx thy s =
      bind_err (epoch lr thx thy sk) (for_epochs (nat num_epochs - Suc k) lr thx thy)"
    by (simp add: sk)
  have fwd: "forward (lin sk) (Const thx) = Inr ?yh"
    by (rule forward_Const)
  have mse: "mse (Const thy) ?yh = Inr ?l"
    using assms(1) by (simp add: mse_same)
  have bwd: "grad (self_a (backward ?l (lin sk))) = Some (fst (loss_grads ?l))"
    "grad (self_b (backward ?l (lin sk))) = Some (snd (loss_grads ?l))"
    using clear by (simp_all add: backward_eq)
  have ep: "epoch lr thx thy sk =
      Inr \<lparr>lin = \<lparr>self_a = \<lparr>data = data (self_a (lin sk)) - lr * fst (loss_grads ?l),
                             grad = Some 0\<rparr>,
                  self_b = \<lparr>data = data (self_b (lin sk)) - lr * snd (loss_grads ?l),
                             grad = Some 0\<rparr>\<rparr>,
           yhat = val ?yh, loss = Some (item ?l)\<rparr>"
    using assms(1) clear by (simp add: epoch_same)
  have only: "epoch lr thx thy t = epoch lr thx thy sk"
    if "params t = params sk \<and>
        pending_grad (self_a (lin t)) = 0 \<and> pending_grad (self_b (lin t)) = 0" for t
  proof -
    have "forward_graph (lin t) thx = forward_graph (lin sk) thx"
      using that by (simp add: forward_graph_def prediction_def params_def)
    then show ?thesis
      using that assms(1) clear by (simp add: epoch_same params_def prediction_def)
  qed
  from sk run clear zeroed fwd mse bwd ep only show ?thesis
    by blast
qed

text \<open>
  The second of two iterations on \<open>x = [1]\<close>, \<open>y = [2]\<close> starts with both gradients
  zero and parameters \<open>2/5\<close>, and leaves \<open>a = 16/25\<close>.
\<close>

theorem no_gradient_carried_over_witness:
  "\<exists>sk s'. for_epochs 1 (1 / 10) [1] [2]
       \<lparr>lin = \<lparr>self_a = Parameter 0, self_b = Parameter 0\<rparr>, yhat = [0], loss = None\<rparr> = Inr sk \<and>
     grad (self_a (lin sk)) = Some 0 \<and> grad (self_b (lin sk)) = Some 0 \<and>
     params sk = (2 / 5, 2 / 5) \<and>
     epoch (1 / 10) [1] [2] sk = Inr s' \<and> grad (self_a (lin s')) = Some 0 \<and>
     data (self_a (lin s')) = 16 / 25"
  using no_gradient_carried_over [of "[1]" "[2]"
      "\<lparr>lin = \<lparr>self_a = Parameter 0, self_b = Parameter 0\<rparr>, yhat = [0], loss = None\<rparr>"
      1 2 "1 / 10"]
  by (auto simp: Parameter_def pending_grad_def params_def epoch_fresh
      spec_gradient_def spec_step_def)

end
